theory Spec2Isabelle
  imports Complex_Main "HOL-Library.Multiset"
begin

section \<open>Python exceptions\<close>

text \<open>
  The values of this type are instances of Python's \<open>Exception\<close>: what an
  \<open>except Exception as e\<close> clause catches. \<open>exc_str\<close> is \<open>str(e)\<close>.
  \<open>exc_context\<close> is \<open>e.__context__\<close>: an exception raised while an
  \<open>except\<close> clause handles another one has the handled exception attached there by
  the interpreter (implicit chaining); none of the \<open>raise\<close> statements of the
  sources uses \<open>from\<close>.
\<close>

datatype exc_class =
    FileNotFoundError | UnidentifiedImageError | OSError | ZeroDivisionError
  | RuntimeError | TypeError | IndexError | ValueError | NameError | AttributeError
  | OtherException

datatype py_exception =
  PyExc (exc_class: exc_class) (exc_str: string) (exc_context: "py_exception option")

text \<open>\<open>raise cls(msg)\<close> outside a handler, and inside the handler of \<open>e\<close>.\<close>

definition raise_new :: "exc_class \<Rightarrow> string \<Rightarrow> py_exception" where
  "raise_new cls m = PyExc cls m None"

definition raise_handling :: "py_exception \<Rightarrow> exc_class \<Rightarrow> string \<Rightarrow> py_exception" where
  "raise_handling e cls m = PyExc cls m (Some e)"

section \<open>Images and tensors\<close>

text \<open>
  A PIL image: its size, its mode and its pixels (band, row, column; 0 to 255). A
  tensor: its shape and its elements by index. Elements are real numbers: the
  properties below are about shapes, lengths and order, never about rounding.
\<close>

datatype im_mode = L | RGB | RGBA

fun bands :: "im_mode \<Rightarrow> nat" where
  "bands L = 1"
| "bands RGB = 3"
| "bands RGBA = 4"

type_synonym pixels = "nat \<Rightarrow> nat \<Rightarrow> nat \<Rightarrow> real"

record pil_image =
  im_width :: nat
  im_height :: nat
  im_mode :: im_mode
  im_pixel :: pixels

record tensor =
  shape :: "nat list"
  elem :: "nat list \<Rightarrow> real"

text \<open>
  The network object: \<open>training\<close> is its mode flag, \<open>forward\<close> the call
  \<open>self.model(image_tensor)\<close>, which gives row 0 of the (1, N) score tensor or raises.
\<close>

record resnet =
  training :: bool
  forward :: "tensor \<Rightarrow> py_exception + real list"

text \<open>
  The libraries the module calls, as parameters: \<open>models.resnet50(weights=...)\<close>,
  \<open>Image.open\<close> (reads the header), the pixel decoder behind \<open>.convert\<close>, the
  resampling filter behind \<open>Resize\<close>, and \<open>torch.topk\<close> on row 0, which gives the
  (value, index) pairs in the order of its two result tensors.
\<close>

record env =
  resnet50 :: "py_exception + resnet"
  image_open :: "string \<Rightarrow> py_exception + pil_image"
  decode_as :: "im_mode \<Rightarrow> pil_image \<Rightarrow> py_exception + pixels"
  resample :: "pil_image \<Rightarrow> nat \<Rightarrow> nat \<Rightarrow> pixels"
  topk :: "real list \<Rightarrow> int \<Rightarrow> py_exception + (real \<times> nat) list"

text \<open>
  What \<open>torch.topk(input, k)\<close> promises on a vector: it refuses \<open>k\<close> outside
  \<open>0..n\<close> (\<open>selected index k out of range\<close>); otherwise it gives \<open>k\<close> pairs, each a
  value of the input with its index, no index twice, the values in non-increasing
  order, and no element left out larger than one returned. The order of equal
  values is not part of the promise.
\<close>

definition topk_contract :: "(real list \<Rightarrow> int \<Rightarrow> py_exception + (real \<times> nat) list) \<Rightarrow> bool" where
  "topk_contract tk \<longleftrightarrow>
     (\<forall>xs k.
        if 0 \<le> k \<and> k \<le> int (length xs)
        then (\<exists>ps. tk xs k = Inr ps \<and> int (length ps) = k \<and> distinct (map snd ps)
                \<and> (\<forall>p \<in> set ps. snd p < length xs \<and> fst p = xs ! snd p)
                \<and> sorted_wrt (\<lambda>a b. a \<ge> b) (map fst ps)
                \<and> (\<forall>i < length xs. i \<notin> snd ` set ps \<longrightarrow> (\<forall>p \<in> set ps. xs ! i \<le> fst p)))
        else (\<exists>m c. tk xs k = Inl (PyExc RuntimeError m c)))"

section \<open>The preprocessing pipeline\<close>

text \<open>
  \<open>transforms.Resize(size)\<close> with an integer: the shorter side becomes \<open>size\<close>, the
  longer one \<open>int(size * long / short)\<close>; an image already of that size is returned
  as it is. A side of length 0 makes the division raise.
\<close>

definition resize :: "(pil_image \<Rightarrow> nat \<Rightarrow> nat \<Rightarrow> pixels) \<Rightarrow> nat \<Rightarrow> pil_image \<Rightarrow> py_exception + pil_image" where
  "resize rs sz img =
     (let w = im_width img; h = im_height img;
          short = (if w \<le> h then w else h); long = (if w \<le> h then h else w)
      in if short = 0 then Inl (raise_new ZeroDivisionError ''division by zero'')
         else let new_long = sz * long div short;
                  new_w = (if w \<le> h then sz else new_long);
                  new_h = (if w \<le> h then new_long else sz)
              in if (w, h) = (new_w, new_h) then Inr img
                 else Inr (img\<lparr>im_width := new_w, im_height := new_h, im_pixel := rs img new_w new_h\<rparr>))"

text \<open>Python's \<open>int(round(d / 2.0))\<close> for a natural \<open>d\<close>: halves round to even.\<close>

definition round_half :: "nat \<Rightarrow> nat" where
  "round_half d = (if even d then d div 2 else if even (d div 2) then d div 2 else d div 2 + 1)"

text \<open>
  \<open>transforms.CenterCrop(size)\<close>: an image smaller than the crop is first padded
  with zeros to the crop's size on that axis, then the centred window is cut out.
\<close>

definition pad_to :: "nat \<Rightarrow> pil_image \<Rightarrow> pil_image" where
  "pad_to sz img =
     (let w = im_width img; h = im_height img;
          left = (if sz > w then (sz - w) div 2 else 0);
          upper = (if sz > h then (sz - h) div 2 else 0)
      in img\<lparr>im_width := max w sz, im_height := max h sz,
               im_pixel := (\<lambda>b y x. if upper \<le> y \<and> y < upper + h \<and> left \<le> x \<and> x < left + w
                                       then im_pixel img b (y - upper) (x - left) else 0)\<rparr>)"

definition center_crop :: "nat \<Rightarrow> pil_image \<Rightarrow> pil_image" where
  "center_crop sz img0 =
     (let img = (if sz > im_width img0 \<or> sz > im_height img0 then pad_to sz img0 else img0);
          crop_top = round_half (im_height img - sz);
          crop_left = round_half (im_width img - sz)
      in img\<lparr>im_width := sz, im_height := sz,
               im_pixel := (\<lambda>b y x. im_pixel img b (y + crop_top) (x + crop_left))\<rparr>)"

text \<open>\<open>transforms.ToTensor()\<close>: bands first, values scaled to the unit interval.\<close>

definition to_tensor :: "pil_image \<Rightarrow> tensor" where
  "to_tensor img =
     \<lparr>shape = [bands (im_mode img), im_height img, im_width img],
      elem = (\<lambda>idx. im_pixel img (idx ! 0) (idx ! 1) (idx ! 2) / 255)\<rparr>"

text \<open>
  \<open>transforms.Normalize(mean, std)\<close>: per channel, in place; a tensor whose channel
  count is not the number of means cannot be broadcast and is refused.
\<close>

definition normalize :: "real list \<Rightarrow> real list \<Rightarrow> tensor \<Rightarrow> py_exception + tensor" where
  "normalize mean std t =
     (if length (shape t) \<noteq> 3 \<or> hd (shape t) \<noteq> length mean
      then Inl (raise_new RuntimeError ''The size of tensor a must match the size of tensor b'')
      else Inr (t\<lparr>elem := (\<lambda>idx. (elem t idx - mean ! (idx ! 0)) / std ! (idx ! 0))\<rparr>))"

definition imagenet_mean :: "real list" where
  "imagenet_mean = [485 / 1000, 456 / 1000, 406 / 1000]"

definition imagenet_std :: "real list" where
  "imagenet_std = [229 / 1000, 224 / 1000, 225 / 1000]"

definition compose_transforms :: "(pil_image \<Rightarrow> nat \<Rightarrow> nat \<Rightarrow> pixels) \<Rightarrow> pil_image \<Rightarrow> py_exception + tensor" where
  "compose_transforms rs img =
     (case resize rs 256 img of
        Inl e \<Rightarrow> Inl e
      | Inr resized \<Rightarrow> normalize imagenet_mean imagenet_std (to_tensor (center_crop 224 resized)))"

definition unsqueeze0 :: "tensor \<Rightarrow> tensor" where
  "unsqueeze0 t = \<lparr>shape = 1 # shape t, elem = (\<lambda>idx. elem t (tl idx))\<rparr>"

text \<open>\<open>Image.open(path).convert(mode)\<close>: the pixels are decoded by \<open>convert\<close>.\<close>

definition convert :: "(im_mode \<Rightarrow> pil_image \<Rightarrow> py_exception + pixels) \<Rightarrow> im_mode \<Rightarrow> pil_image \<Rightarrow> py_exception + pil_image" where
  "convert dec m img =
     (case dec m img of
        Inl e \<Rightarrow> Inl e
      | Inr px \<Rightarrow> Inr (img\<lparr>im_mode := m, im_pixel := px\<rparr>))"

section \<open>ResNet50Classifier\<close>

record classifier =
  model :: "resnet option"
  transform :: "(pil_image \<Rightarrow> py_exception + tensor) option"
  class_labels :: "string list option"

definition setup_model :: "env \<Rightarrow> classifier \<Rightarrow> py_exception + classifier" where
  "setup_model ev self =
     (case resnet50 ev of
        Inl e \<Rightarrow> Inl e
      | Inr m \<Rightarrow> Inr (self\<lparr>model := Some (m\<lparr>training := False\<rparr>)\<rparr>))"

definition setup_transforms :: "env \<Rightarrow> classifier \<Rightarrow> classifier" where
  "setup_transforms ev self = self\<lparr>transform := Some (compose_transforms (resample ev))\<rparr>"

definition imagenet_labels :: "string list" where
  "imagenet_labels =
     [''tench'', ''goldfish'', ''great white shark'', ''tiger shark'',
      ''hammerhead'', ''electric ray'', ''stingray'', ''cock'', ''hen'',
      ''ostrich'', ''brambling'', ''goldfinch'', ''house finch'',
      ''junco'', ''indigo bunting'', ''robin'', ''bulbul'', ''jay'',
      ''magpie'', ''chickadee'', ''water ouzel'', ''kite'', ''bald eagle'',
      ''vulture'', ''great grey owl'', ''European fire salamander'',
      ''common newt'', ''eft'', ''spotted salamander'', ''axolotl'']"

definition load_imagenet_labels :: "classifier \<Rightarrow> classifier" where
  "load_imagenet_labels self = self\<lparr>class_labels := Some imagenet_labels\<rparr>"

text \<open>\<open>__init__\<close>: an exception of \<open>_setup_model\<close> leaves no instance behind.\<close>

definition init :: "env \<Rightarrow> py_exception + classifier" where
  "init ev =
     (case setup_model ev \<lparr>model = None, transform = None, class_labels = None\<rparr> of
        Inl e \<Rightarrow> Inl e
      | Inr self \<Rightarrow> Inr (load_imagenet_labels (setup_transforms ev self)))"

definition create_classifier :: "env \<Rightarrow> py_exception + classifier" where
  "create_classifier ev = init ev"

definition is_model_loaded :: "classifier \<Rightarrow> bool" where
  "is_model_loaded self \<longleftrightarrow> model self \<noteq> None"

text \<open>The body of the \<open>try\<close> of \<open>preprocess_image\<close>, then its handler.\<close>

definition preprocess_body :: "env \<Rightarrow> classifier \<Rightarrow> string \<Rightarrow> py_exception + tensor" where
  "preprocess_body ev self image_path =
     (case image_open ev image_path of
        Inl e \<Rightarrow> Inl e
      | Inr opened \<Rightarrow>
          (case convert (decode_as ev) RGB opened of
             Inl e \<Rightarrow> Inl e
           | Inr pil \<Rightarrow>
               (case transform self of
                  None \<Rightarrow> Inl (raise_new TypeError ''NoneType object is not callable'')
                | Some tf \<Rightarrow>
                    (case tf pil of
                       Inl e \<Rightarrow> Inl e
                     | Inr image_tensor \<Rightarrow> Inr (unsqueeze0 image_tensor)))))"

definition preprocess_image :: "env \<Rightarrow> classifier \<Rightarrow> string \<Rightarrow> py_exception + tensor" where
  "preprocess_image ev self image_path =
     (case preprocess_body ev self image_path of
        Inl e \<Rightarrow> Inl (raise_handling e ValueError (''Cannot process image: '' @ exc_str e))
      | Inr image_tensor \<Rightarrow> Inr image_tensor)"

text \<open>\<open>F.softmax(outputs, dim=1)\<close> on row 0.\<close>

definition softmax :: "real list \<Rightarrow> real list" where
  "softmax xs = map (\<lambda>x. exp x / sum_list (map exp xs)) xs"

text \<open>\<open>str\<close> of a non-negative integer: its decimal digits.\<close>

definition digit_char :: "nat \<Rightarrow> char" where
  "digit_char d = ''0123456789'' ! d"

fun str_nat :: "nat \<Rightarrow> string" where
  "str_nat n = (if n < 10 then [digit_char n] else str_nat (n div 10) @ [digit_char (n mod 10)])"

text \<open>One round of the loop of \<open>predict\<close>: the entry for a (confidence, index) pair.\<close>

definition label_entry :: "string list \<Rightarrow> real \<times> nat \<Rightarrow> string \<times> real" where
  "label_entry labels p =
     (let class_idx = snd p; confidence = fst p;
          class_name = (if class_idx < length labels then labels ! class_idx
                        else ''Class_'' @ str_nat class_idx)
      in (class_name, confidence))"

text \<open>
  \<open>for i in range(top_k)\<close>, reading position \<open>i\<close> of the two result tensors; a
  position they do not have raises.
\<close>

fun collect :: "string list \<Rightarrow> (real \<times> nat) list \<Rightarrow> nat list \<Rightarrow> py_exception + (string \<times> real) list" where
  "collect labels ranked [] = Inr []"
| "collect labels ranked (i # rest) =
     (if i < length ranked
      then (case collect labels ranked rest of
              Inl e \<Rightarrow> Inl e
            | Inr predictions \<Rightarrow> Inr (label_entry labels (ranked ! i) # predictions))
      else Inl (raise_new IndexError ''index out of range''))"

definition predict_body :: "env \<Rightarrow> classifier \<Rightarrow> string \<Rightarrow> int \<Rightarrow> py_exception + (string \<times> real) list" where
  "predict_body ev self image_path top_k =
     (case preprocess_image ev self image_path of
        Inl e \<Rightarrow> Inl e
      | Inr image_tensor \<Rightarrow>
          (case model self of
             None \<Rightarrow> Inl (raise_new TypeError ''NoneType object is not callable'')
           | Some net \<Rightarrow>
               (case forward net image_tensor of
                  Inl e \<Rightarrow> Inl e
                | Inr outputs \<Rightarrow>
                    (case topk ev (softmax outputs) top_k of
                       Inl e \<Rightarrow> Inl e
                     | Inr ranked \<Rightarrow>
                         (case class_labels self of
                            None \<Rightarrow>
                              (if top_k \<le> 0 then Inr []
                               else if ranked = [] then Inl (raise_new IndexError ''index out of range'')
                               else Inl (raise_new TypeError ''object of type NoneType has no len()''))
                          | Some labels \<Rightarrow> collect labels ranked [0 ..< nat top_k])))))"

definition predict :: "env \<Rightarrow> classifier \<Rightarrow> string \<Rightarrow> int \<Rightarrow> py_exception + (string \<times> real) list" where
  "predict ev self image_path top_k =
     (case predict_body ev self image_path top_k of
        Inl e \<Rightarrow> Inl (raise_handling e ValueError (''Prediction failed: '' @ exc_str e))
      | Inr predictions \<Rightarrow> Inr predictions)"

declare str_nat.simps [simp del]

section \<open>ImageClassifierGUI\<close>

text \<open>
  The widgets the methods read and write, as far as they do: the state of the
  classify button, the texts of the labels (the status with its colour), whether the
  progress bar runs, the predictions the text pane shows (numbered from 1, with the
  confidence in percent), the text and the image option of the image label (the
  image by the path it was made from), and the message boxes opened so far.
\<close>

datatype tk_state = NORMAL | DISABLED

datatype dialog = ShowWarning string string | ShowError string string

record gui =
  classifier :: "classifier option"
  current_image_path :: "string option"
  predict_button :: tk_state
  file_label :: string
  status_label :: "string \<times> string"
  progress_running :: bool
  results_text :: "(nat \<times> string \<times> real) list"
  image_label_text :: string
  image_label_image :: "string option"
  dialogs :: "dialog list"

text \<open>
  A background thread runs \<open>load_in_background\<close> or \<open>classify_in_background\<close>. Its
  frame holds the variable \<open>e\<close> of \<open>except Exception as e\<close>: bound while the clause
  runs and unbound when the clause is left, as Python does for the target of
  \<open>as\<close>. The two lambdas that mention \<open>e\<close> read that variable when they are called,
  so a callback holds the thread whose frame it closes over, not a value.
\<close>

datatype task = LoadModel | ClassifyImage

datatype pc = AtTry | Started | InExcept | Finished

record worker =
  task :: task
  pc :: pc
  exc_var :: "py_exception option"

datatype callback =
    OnModelLoaded
  | ModelErrorLambda nat
  | OnClassificationStart
  | ClassificationCompleteLambda "(string \<times> real) list"
  | ClassificationErrorLambda nat

text \<open>
  The application: the widgets, the threads started so far, the callbacks that
  \<open>root.after(0, ...)\<close> has queued for the main loop, and the exceptions that
  callbacks raised, which Tk reports on the console and drops.
\<close>

record app =
  gui :: gui
  workers :: "worker list"
  after_queue :: "callback list"
  callback_errors :: "py_exception list"

definition setup_ui :: gui where
  "setup_ui =
     \<lparr>classifier = None, current_image_path = None, predict_button = DISABLED,
      file_label = ''No file selected'', status_label = (''Loading model...'', ''blue''),
      progress_running = False, results_text = [],
      image_label_text = ''No image selected'', image_label_image = None, dialogs = []\<rparr>"

definition start_thread :: "task \<Rightarrow> app \<Rightarrow> app" where
  "start_thread tsk s = s\<lparr>workers := workers s @ [\<lparr>task = tsk, pc = AtTry, exc_var = None\<rparr>]\<rparr>"

definition load_model :: "app \<Rightarrow> app" where
  "load_model s = start_thread LoadModel s"

definition init_gui :: app where
  "init_gui = load_model \<lparr>gui = setup_ui, workers = [], after_queue = [], callback_errors = []\<rparr>"

definition root_after :: "callback \<Rightarrow> app \<Rightarrow> app" where
  "root_after cb s = s\<lparr>after_queue := after_queue s @ [cb]\<rparr>"

definition set_worker :: "nat \<Rightarrow> worker \<Rightarrow> app \<Rightarrow> app" where
  "set_worker tid w s = s\<lparr>workers := (workers s)[tid := w]\<rparr>"

text \<open>
  One step of the thread \<open>tid\<close> running \<open>load_in_background\<close>: the \<open>try\<close> up to the
  call of \<open>root.after\<close>, then, after a failure, leaving the \<open>except\<close> clause.
\<close>

definition load_in_background :: "env \<Rightarrow> nat \<Rightarrow> worker \<Rightarrow> app \<Rightarrow> app" where
  "load_in_background ev tid w s =
     (case pc w of
        AtTry \<Rightarrow>
          (let s1 = s\<lparr>gui := (gui s)\<lparr>progress_running := True\<rparr>\<rparr>
           in case create_classifier ev of
                Inr made \<Rightarrow>
                  set_worker tid (w\<lparr>pc := Finished\<rparr>)
                    (root_after OnModelLoaded (s1\<lparr>gui := (gui s1)\<lparr>classifier := Some made\<rparr>\<rparr>))
              | Inl e \<Rightarrow>
                  set_worker tid (w\<lparr>pc := InExcept, exc_var := Some e\<rparr>)
                    (root_after (ModelErrorLambda tid) s1))
      | InExcept \<Rightarrow> set_worker tid (w\<lparr>pc := Finished, exc_var := None\<rparr>) s
      | _ \<Rightarrow> s)"

text \<open>
  The same for \<open>classify_in_background\<close>: queue the start callback; call
  \<open>self.classifier.predict(self.current_image_path, top_k=5)\<close> and queue a lambda
  for its outcome; after a failure, leave the \<open>except\<close> clause. Both attributes
  are read when the thread comes to the call. No method sets the path back to
  \<open>None\<close> once \<open>classify_image\<close> has seen one, so that branch stands for a path no
  file has.
\<close>

definition call_predict :: "env \<Rightarrow> gui \<Rightarrow> py_exception + (string \<times> real) list" where
  "call_predict ev g =
     (case classifier g of
        None \<Rightarrow> Inl (raise_new AttributeError ''NoneType object has no attribute predict'')
      | Some c \<Rightarrow>
          (case current_image_path g of
             None \<Rightarrow> predict ev c [] 5
           | Some image_path \<Rightarrow> predict ev c image_path 5))"

definition classify_in_background :: "env \<Rightarrow> nat \<Rightarrow> worker \<Rightarrow> app \<Rightarrow> app" where
  "classify_in_background ev tid w s =
     (case pc w of
        AtTry \<Rightarrow> set_worker tid (w\<lparr>pc := Started\<rparr>) (root_after OnClassificationStart s)
      | Started \<Rightarrow>
          (case call_predict ev (gui s) of
             Inr predictions \<Rightarrow>
               set_worker tid (w\<lparr>pc := Finished\<rparr>)
                 (root_after (ClassificationCompleteLambda predictions) s)
           | Inl e \<Rightarrow>
               set_worker tid (w\<lparr>pc := InExcept, exc_var := Some e\<rparr>)
                 (root_after (ClassificationErrorLambda tid) s))
      | InExcept \<Rightarrow> set_worker tid (w\<lparr>pc := Finished, exc_var := None\<rparr>) s
      | Finished \<Rightarrow> s)"

definition worker_step :: "env \<Rightarrow> nat \<Rightarrow> app \<Rightarrow> app" where
  "worker_step ev tid s =
     (if tid < length (workers s)
      then (let w = workers s ! tid
            in case task w of
                 LoadModel \<Rightarrow> load_in_background ev tid w s
               | ClassifyImage \<Rightarrow> classify_in_background ev tid w s)
      else s)"

definition clear_results :: "gui \<Rightarrow> gui" where
  "clear_results g = g\<lparr>results_text := []\<rparr>"

definition display_results :: "(string \<times> real) list \<Rightarrow> gui \<Rightarrow> gui" where
  "display_results predictions g =
     g\<lparr>results_text := map (\<lambda>(i, class_name, confidence). (i, class_name, confidence * 100))
                           (zip [1 ..< Suc (length predictions)] predictions)\<rparr>"

definition on_model_loaded :: "gui \<Rightarrow> gui" where
  "on_model_loaded g =
     g\<lparr>progress_running := False, status_label := (''Model loaded successfully'', ''green'')\<rparr>"

definition on_model_error :: "string \<Rightarrow> gui \<Rightarrow> gui" where
  "on_model_error error_msg g =
     g\<lparr>progress_running := False, status_label := (''Model loading failed'', ''red''),
       dialogs := dialogs g @ [ShowError ''Model Error'' (''Failed to load model: '' @ error_msg)]\<rparr>"

definition on_classification_start :: "gui \<Rightarrow> gui" where
  "on_classification_start g =
     clear_results (g\<lparr>progress_running := True, predict_button := DISABLED,
                      status_label := (''Classifying...'', ''blue'')\<rparr>)"

definition on_classification_complete :: "(string \<times> real) list \<Rightarrow> gui \<Rightarrow> gui" where
  "on_classification_complete predictions g =
     display_results predictions
       (g\<lparr>progress_running := False, predict_button := NORMAL,
          status_label := (''Classification complete'', ''green'')\<rparr>)"

definition on_classification_error :: "string \<Rightarrow> gui \<Rightarrow> gui" where
  "on_classification_error error_msg g =
     g\<lparr>progress_running := False, predict_button := NORMAL,
       status_label := (''Classification failed'', ''red''),
       dialogs := dialogs g @ [ShowError ''Classification Error''
                                 (''Failed to classify image: '' @ error_msg)]\<rparr>"

text \<open>
  Reading \<open>e\<close> in a lambda: the value bound in the frame of thread \<open>tid\<close>, or
  \<open>NameError\<close> when the variable is unbound.
\<close>

definition read_exc_var :: "nat \<Rightarrow> app \<Rightarrow> py_exception + py_exception" where
  "read_exc_var tid s =
     (if tid < length (workers s)
      then (case exc_var (workers s ! tid) of
              None \<Rightarrow> Inl (raise_new NameError
                ''cannot access free variable e where it is not associated with a value in enclosing scope'')
            | Some e \<Rightarrow> Inr e)
      else Inl (raise_new NameError
                ''cannot access free variable e where it is not associated with a value in enclosing scope''))"

definition report_callback_exception :: "py_exception \<Rightarrow> app \<Rightarrow> app" where
  "report_callback_exception e s = s\<lparr>callback_errors := callback_errors s @ [e]\<rparr>"

fun run_callback :: "callback \<Rightarrow> app \<Rightarrow> app" where
  "run_callback OnModelLoaded s = s\<lparr>gui := on_model_loaded (gui s)\<rparr>"
| "run_callback (ModelErrorLambda tid) s =
     (case read_exc_var tid s of
        Inl err \<Rightarrow> report_callback_exception err s
      | Inr e \<Rightarrow> s\<lparr>gui := on_model_error (exc_str e) (gui s)\<rparr>)"
| "run_callback OnClassificationStart s = s\<lparr>gui := on_classification_start (gui s)\<rparr>"
| "run_callback (ClassificationCompleteLambda predictions) s =
     s\<lparr>gui := on_classification_complete predictions (gui s)\<rparr>"
| "run_callback (ClassificationErrorLambda tid) s =
     (case read_exc_var tid s of
        Inl err \<Rightarrow> report_callback_exception err s
      | Inr e \<Rightarrow> s\<lparr>gui := on_classification_error (exc_str e) (gui s)\<rparr>)"

text \<open>The main loop takes the oldest queued callback and runs it.\<close>

definition mainloop_dispatch :: "app \<Rightarrow> app" where
  "mainloop_dispatch s =
     (case after_queue s of
        [] \<Rightarrow> s
      | cb # rest \<Rightarrow> run_callback cb (s\<lparr>after_queue := rest\<rparr>))"

text \<open>\<open>os.path.basename\<close>: what follows the last slash.\<close>

definition basename :: "string \<Rightarrow> string" where
  "basename p = rev (takeWhile (\<lambda>ch. ch \<noteq> CHR ''/'') (rev p))"

text \<open>
  \<open>display_image\<close>: \<open>Image.open\<close>, then \<open>thumbnail\<close>, which decodes the pixels, then
  \<open>config(image=photo, text="")\<close>. Any exception ends in \<open>config(text=...)\<close>, which
  sets the text and leaves the image option of the label as it was.
\<close>

definition display_image :: "env \<Rightarrow> string \<Rightarrow> gui \<Rightarrow> gui" where
  "display_image ev image_path g =
     (case image_open ev image_path of
        Inl e \<Rightarrow> g\<lparr>image_label_text := ''Error loading image: '' @ exc_str e\<rparr>
      | Inr opened \<Rightarrow>
          (case decode_as ev (im_mode opened) opened of
             Inl e \<Rightarrow> g\<lparr>image_label_text := ''Error loading image: '' @ exc_str e\<rparr>
           | Inr px \<Rightarrow> g\<lparr>image_label_image := Some image_path, image_label_text := []\<rparr>))"

text \<open>\<open>select_image\<close>, given the path the file dialog returned (empty when cancelled).\<close>

definition select_image :: "env \<Rightarrow> string \<Rightarrow> gui \<Rightarrow> gui" where
  "select_image ev file_path g =
     (if file_path \<noteq> []
      then clear_results
             (display_image ev file_path
                (g\<lparr>current_image_path := Some file_path,
                   file_label := ''Selected: '' @ basename file_path,
                   predict_button := NORMAL\<rparr>))
      else g)"

definition no_image_selected :: "gui \<Rightarrow> bool" where
  "no_image_selected g \<longleftrightarrow> (case current_image_path g of None \<Rightarrow> True | Some p \<Rightarrow> p = [])"

definition classify_image :: "app \<Rightarrow> app" where
  "classify_image s =
     (if no_image_selected (gui s)
      then s\<lparr>gui := (gui s)\<lparr>dialogs := dialogs (gui s) @
                 [ShowWarning ''No Image'' ''Please select an image first.'']\<rparr>\<rparr>
      else if classifier (gui s) = None
      then s\<lparr>gui := (gui s)\<lparr>dialogs := dialogs (gui s) @
                 [ShowError ''Model Error'' ''Model is not loaded.'']\<rparr>\<rparr>
      else start_thread ClassifyImage s)"

text \<open>
  What can happen next: the user picks a file (or cancels), the user clicks the
  classify button (a disabled button ignores the click), \<open>classify_image\<close> is called
  directly, the main loop runs a callback, or a thread takes a step.
\<close>

datatype action =
  SelectImage string | ClickClassify | CallClassifyImage | Dispatch | Worker nat

fun step :: "env \<Rightarrow> action \<Rightarrow> app \<Rightarrow> app" where
  "step ev (SelectImage file_path) s = s\<lparr>gui := select_image ev file_path (gui s)\<rparr>"
| "step ev ClickClassify s = (if predict_button (gui s) = NORMAL then classify_image s else s)"
| "step ev CallClassifyImage s = classify_image s"
| "step ev Dispatch s = mainloop_dispatch s"
| "step ev (Worker tid) s = worker_step ev tid s"

fun run :: "env \<Rightarrow> action list \<Rightarrow> app \<Rightarrow> app" where
  "run ev [] s = s"
| "run ev (a # rest) s = run ev rest (step ev a s)"

text \<open>
  The model load has failed: no classifier is stored and no loading thread is still
  before its \<open>try\<close>.
\<close>

definition load_failed :: "app \<Rightarrow> bool" where
  "load_failed s \<longleftrightarrow>
     classifier (gui s) = None \<and> (\<forall>w \<in> set (workers s). task w = LoadModel \<longrightarrow> pc w \<noteq> AtTry)"

section \<open>Sample collaborators\<close>

text \<open>
  A ranking that keeps the promise of \<open>torch.topk\<close> and puts equal values in
  ascending order of index. Then a small world to run the classifier in: a solid red
  100 by 100 image at \<open>red.jpg\<close>, a file cut short at \<open>truncated.jpg\<close>, an empty
  file and one that is no image, no other file; nearest-neighbour resampling, and a
  network that scores all of its 1000 classes alike.
\<close>

definition topk_stable :: "real list \<Rightarrow> int \<Rightarrow> py_exception + (real \<times> nat) list" where
  "topk_stable xs k =
     (if 0 \<le> k \<and> k \<le> int (length xs)
      then Inr (take (nat k) (sort_key (\<lambda>p. - fst p) (zip xs [0 ..< length xs])))
      else Inl (raise_new RuntimeError ''selected index k out of range''))"


definition red_image :: pil_image where
  "red_image = \<lparr>im_width = 100, im_height = 100, im_mode = RGB,
                 im_pixel = (\<lambda>b y x. if b = 0 then 255 else 0)\<rparr>"

definition nearest :: "pil_image \<Rightarrow> nat \<Rightarrow> nat \<Rightarrow> pixels" where
  "nearest img w h = (\<lambda>b y x. im_pixel img b (y * im_height img div h) (x * im_width img div w))"

definition flat_net :: resnet where
  "flat_net = \<lparr>training = True,
               forward = (\<lambda>t. if shape t = [1, 3, 224, 224] then Inr (replicate 1000 0)
                               else Inl (raise_new RuntimeError ''expected a 1x3x224x224 input''))\<rparr>"

definition truncated_image :: pil_image where
  "truncated_image = \<lparr>im_width = 64, im_height = 64, im_mode = RGB, im_pixel = (\<lambda>b y x. 0)\<rparr>"

definition sample_env :: "(real list \<Rightarrow> int \<Rightarrow> py_exception + (real \<times> nat) list) \<Rightarrow> env" where
  "sample_env tk =
     \<lparr>resnet50 = Inr flat_net,
      image_open = (\<lambda>p. if p = ''red.jpg'' then Inr red_image
                         else if p = ''truncated.jpg'' then Inr truncated_image
                         else if p = ''empty.jpg'' \<or> p = ''blob.jpg''
                         then Inl (raise_new UnidentifiedImageError ''cannot identify image file'')
                         else Inl (raise_new FileNotFoundError ''No such file or directory'')),
      decode_as = (\<lambda>m img. if im_width img = 64
                             then Inl (raise_new OSError ''image file is truncated'')
                             else Inr (im_pixel img)),
      resample = nearest,
      topk = tk\<rparr>"

definition sample_classifier :: "(real list \<Rightarrow> int \<Rightarrow> py_exception + (real \<times> nat) list) \<Rightarrow> classifier" where
  "sample_classifier tk =
     \<lparr>model = Some (flat_net\<lparr>training := False\<rparr>),
      transform = Some (compose_transforms nearest),
      class_labels = Some imagenet_labels\<rparr>"

text \<open>
  Two more networks: one that scores class 999 highest, class 0 second and all
  others alike below them, and one with four classes that it scores alike.
\<close>

definition peaked_net :: resnet where
  "peaked_net = \<lparr>training = False,
                 forward = (\<lambda>t. if shape t = [1, 3, 224, 224] then Inr (ln 2 # replicate 998 0 @ [ln 3])
                                 else Inl (raise_new RuntimeError ''expected a 1x3x224x224 input''))\<rparr>"


definition classifier_of :: "resnet \<Rightarrow> classifier" where
  "classifier_of net =
     \<lparr>model = Some net, transform = Some (compose_transforms nearest),
      class_labels = Some imagenet_labels\<rparr>"

text \<open>The same world with weights that cannot be loaded.\<close>

definition failing_env :: env where
  "failing_env = (sample_env topk_stable)\<lparr>resnet50 := Inl (raise_new RuntimeError ''Model loading failed'')\<rparr>"

section \<open>Properties of the classifier\<close>

lemma ranked_prefix:
  fixes xs :: "real list" and qs :: "(real \<times> nat) list"
  assumes perm: "mset qs = mset (zip xs [0 ..< length xs])"
    and srt: "sorted_wrt (\<lambda>a b. fst a \<ge> fst b) qs"
    and k: "k \<le> length xs"
  shows "length (take k qs) = k"
    and "distinct (map snd (take k qs))"
    and "\<forall>p \<in> set (take k qs). snd p < length xs \<and> fst p = xs ! snd p"
    and "sorted_wrt (\<lambda>a b. a \<ge> b) (map fst (take k qs))"
    and "\<forall>i < length xs. i \<notin> snd ` set (take k qs) \<longrightarrow> (\<forall>p \<in> set (take k qs). xs ! i \<le> fst p)"
proof -
  have len: "length qs = length xs"
    using perm by (metis length_zip length_upt size_mset min.idem diff_zero)
  show "length (take k qs) = k" using len k by simp
  have "mset (map snd qs) = mset (map snd (zip xs [0 ..< length xs]))"
    using perm by (metis mset_map)
  then have "mset (map snd qs) = mset [0 ..< length xs]" by simp
  then have "distinct (map snd qs)" by (metis distinct_upt mset_eq_imp_distinct_iff)
  then show "distinct (map snd (take k qs))" by (simp add: take_map[symmetric])
  have setq: "set qs = set (zip xs [0 ..< length xs])" using perm by (metis set_mset_mset)
  have inq: "\<And>p. p \<in> set qs \<Longrightarrow> snd p < length xs \<and> fst p = xs ! snd p"
  proof -
    fix p assume "p \<in> set qs"
    then have "p \<in> set (zip xs [0 ..< length xs])" using setq by simp
    then obtain i where "i < length xs" "p = (xs ! i, [0 ..< length xs] ! i)"
      by (auto simp: set_zip)
    then show "snd p < length xs \<and> fst p = xs ! snd p" by simp
  qed
  show "\<forall>p \<in> set (take k qs). snd p < length xs \<and> fst p = xs ! snd p"
    using inq in_set_takeD by fast
  have "sorted_wrt (\<lambda>a b. fst a \<ge> fst b) (take k qs)" using srt by (rule sorted_wrt_take)
  then show "sorted_wrt (\<lambda>a b. a \<ge> b) (map fst (take k qs))" by (simp add: sorted_wrt_map)
  have split: "sorted_wrt (\<lambda>a b. fst a \<ge> fst b) (take k qs @ drop k qs)" using srt by simp
  show "\<forall>i < length xs. i \<notin> snd ` set (take k qs) \<longrightarrow> (\<forall>p \<in> set (take k qs). xs ! i \<le> fst p)"
  proof (intro allI impI ballI)
    fix i p assume i: "i < length xs" and out: "i \<notin> snd ` set (take k qs)" and p: "p \<in> set (take k qs)"
    have "(xs ! i, i) \<in> set (zip xs [0 ..< length xs])"
      using i by (auto simp: set_zip intro!: exI[of _ i])
    then have "(xs ! i, i) \<in> set qs" using setq by simp
    moreover have "set qs = set (take k qs) \<union> set (drop k qs)"
      by (metis append_take_drop_id set_append)
    moreover have "(xs ! i, i) \<notin> set (take k qs)" using out by force
    ultimately have "(xs ! i, i) \<in> set (drop k qs)" by blast
    then have "fst p \<ge> fst (xs ! i, i)" using split p unfolding sorted_wrt_append by blast
    then show "xs ! i \<le> fst p" by simp
  qed
qed

lemma topk_stable_contract: "topk_contract topk_stable"
  unfolding topk_contract_def
proof (intro allI)
  fix xs :: "real list" and k :: int
  let ?qs = "sort_key (\<lambda>p. - fst p) (zip xs [0 ..< length xs])"
  have perm: "mset ?qs = mset (zip xs [0 ..< length xs])" by simp
  have "sorted (map (\<lambda>p. - fst p) ?qs)" by (rule sorted_sort_key)
  then have srt: "sorted_wrt (\<lambda>a b. fst a \<ge> fst b) ?qs"
    by (simp add: sorted_wrt_map)
  show "if 0 \<le> k \<and> k \<le> int (length xs)
        then (\<exists>ps. topk_stable xs k = Inr ps \<and> int (length ps) = k \<and> distinct (map snd ps)
                \<and> (\<forall>p \<in> set ps. snd p < length xs \<and> fst p = xs ! snd p)
                \<and> sorted_wrt (\<lambda>a b. a \<ge> b) (map fst ps)
                \<and> (\<forall>i < length xs. i \<notin> snd ` set ps \<longrightarrow> (\<forall>p \<in> set ps. xs ! i \<le> fst p)))
        else (\<exists>m c. topk_stable xs k = Inl (PyExc RuntimeError m c))"
  proof (cases "0 \<le> k \<and> k \<le> int (length xs)")
    case True
    then have k: "nat k \<le> length xs" by linarith
    have eq: "topk_stable xs k = Inr (take (nat k) ?qs)" using True by (simp add: topk_stable_def)
    have l: "int (length (take (nat k) ?qs)) = k"
      using ranked_prefix(1)[OF perm srt k] True by linarith
    have "\<exists>ps. topk_stable xs k = Inr ps \<and> int (length ps) = k \<and> distinct (map snd ps)
                \<and> (\<forall>p \<in> set ps. snd p < length xs \<and> fst p = xs ! snd p)
                \<and> sorted_wrt (\<lambda>a b. a \<ge> b) (map fst ps)
                \<and> (\<forall>i < length xs. i \<notin> snd ` set ps \<longrightarrow> (\<forall>p \<in> set ps. xs ! i \<le> fst p))"
      apply (rule exI[of _ "take (nat k) ?qs"])
      apply (intro conjI)
           apply (rule eq)
          apply (rule l)
         apply (rule ranked_prefix(2)[OF perm srt k])
        apply (rule ranked_prefix(3)[OF perm srt k])
       apply (rule ranked_prefix(4)[OF perm srt k])
      apply (rule ranked_prefix(5)[OF perm srt k])
      done
    then show ?thesis using True by (simp only: if_True simp_thms)
  next
    case False
    then show ?thesis by (auto simp: topk_stable_def raise_new_def)
  qed
qed


lemma create_sample_classifier: "create_classifier (sample_env tk) = Inr (sample_classifier tk)"
  by (simp add: create_classifier_def init_def setup_model_def setup_transforms_def
      load_imagenet_labels_def sample_env_def sample_classifier_def)

lemma resize_256:
  assumes "0 < im_width img" "0 < im_height img"
  shows "\<exists>r. resize rs 256 img = Inr r \<and> min (im_width r) (im_height r) = 256
             \<and> im_mode r = im_mode img"
proof (cases "im_width img \<le> im_height img")
  case True
  have "256 * im_width img div im_width img \<le> 256 * im_height img div im_width img"
    using True by (intro div_le_mono) simp
  then have "256 \<le> 256 * im_height img div im_width img" using assms by simp
  then show ?thesis using True assms by (auto simp: resize_def Let_def)
next
  case False
  have "256 * im_height img div im_height img \<le> 256 * im_width img div im_height img"
    using False by (intro div_le_mono) simp
  then have "256 \<le> 256 * im_width img div im_height img" using assms by simp
  then show ?thesis using False assms by (auto simp: resize_def Let_def)
qed

lemma transforms_shape:
  assumes "0 < im_width img" "0 < im_height img" "im_mode img = RGB"
  shows "\<exists>r. resize rs 256 img = Inr r \<and> min (im_width r) (im_height r) = 256
           \<and> compose_transforms rs img =
               Inr \<lparr>shape = [3, 224, 224],
                    elem = (\<lambda>idx. (im_pixel r (idx ! 0) (idx ! 1 + round_half (im_height r - 224))
                                      (idx ! 2 + round_half (im_width r - 224)) / 255
                                    - imagenet_mean ! (idx ! 0)) / imagenet_std ! (idx ! 0))\<rparr>"
proof -
  obtain r where r: "resize rs 256 img = Inr r" "min (im_width r) (im_height r) = 256"
    "im_mode r = im_mode img"
    using resize_256[OF assms(1,2)] by blast
  then have big: "\<not> 224 > im_width r" "\<not> 224 > im_height r" by linarith+
  have "compose_transforms rs img =
               Inr \<lparr>shape = [3, 224, 224],
                    elem = (\<lambda>idx. (im_pixel r (idx ! 0) (idx ! 1 + round_half (im_height r - 224))
                                      (idx ! 2 + round_half (im_width r - 224)) / 255
                                    - imagenet_mean ! (idx ! 0)) / imagenet_std ! (idx ! 0))\<rparr>"
    using r big assms(3)
    by (simp add: compose_transforms_def center_crop_def to_tensor_def normalize_def
        imagenet_mean_def Let_def)
  then show ?thesis using r by blast
qed

lemma preprocess_image_shape:
  assumes "image_open ev image_path = Inr opened" "decode_as ev RGB opened = Inr px"
    "0 < im_width opened" "0 < im_height opened"
    "transform self = Some (compose_transforms (resample ev))"
  shows "\<exists>t. preprocess_image ev self image_path = Inr t \<and> shape t = [1, 3, 224, 224]"
proof -
  let ?img = "opened\<lparr>im_mode := RGB, im_pixel := px\<rparr>"
  have "0 < im_width ?img" "0 < im_height ?img" "im_mode ?img = RGB" using assms by simp_all
  from transforms_shape[OF this, of "resample ev"]
  obtain t where "compose_transforms (resample ev) ?img = Inr t" "shape t = [3, 224, 224]"
    by force
  then show ?thesis
    using assms by (simp add: preprocess_image_def preprocess_body_def convert_def unsqueeze0_def)
qed

lemma collect_in_range:
  "\<forall>i \<in> set js. i < length ranked \<Longrightarrow>
     collect labels ranked js = Inr (map (\<lambda>i. label_entry labels (ranked ! i)) js)"
  by (induction js) simp_all

lemma collect_Inr:
  "collect labels ranked js = Inr predictions \<Longrightarrow>
     (\<forall>i \<in> set js. i < length ranked) \<and> predictions = map (\<lambda>i. label_entry labels (ranked ! i)) js"
  by (induction js arbitrary: predictions) (auto split: if_splits sum.splits)

lemma map_nth_upt: "n \<le> length xs \<Longrightarrow> map (\<lambda>i. f (xs ! i)) [0 ..< n] = map f (take n xs)"
  by (simp add: list_eq_iff_nth_eq)

lemma collect_all: "collect labels ranked [0 ..< length ranked] = Inr (map (label_entry labels) ranked)"
  using collect_in_range[of "[0 ..< length ranked]" ranked labels] map_nth_upt[of "length ranked" ranked]
  by simp

lemma predict_ok:
  assumes "preprocess_image ev self image_path = Inr t" "model self = Some net"
    "forward net t = Inr outputs" "topk ev (softmax outputs) k = Inr ps"
    "class_labels self = Some labels" "nat k = length ps"
  shows "predict ev self image_path k = Inr (map (label_entry labels) ps)"
  using assms by (simp add: predict_def predict_body_def collect_all)

lemma predict_InrD:
  assumes "predict ev self image_path k = Inr predictions" "class_labels self = Some labels"
  shows "\<exists>t net outputs ps. preprocess_image ev self image_path = Inr t \<and> model self = Some net
           \<and> forward net t = Inr outputs \<and> topk ev (softmax outputs) k = Inr ps
           \<and> nat k \<le> length ps
           \<and> predictions = map (label_entry labels) (take (nat k) ps)"
proof -
  from assms obtain t net outputs ps where
    a: "preprocess_image ev self image_path = Inr t" "model self = Some net"
      "forward net t = Inr outputs" "topk ev (softmax outputs) k = Inr ps"
      "collect labels ps [0 ..< nat k] = Inr predictions"
    by (auto simp: predict_def predict_body_def split: sum.splits option.splits)
  from collect_Inr[OF a(5)] have r: "\<forall>i < nat k. i < length ps"
    "predictions = map (\<lambda>i. label_entry labels (ps ! i)) [0 ..< nat k]" by auto
  have le: "nat k \<le> length ps"
  proof (rule ccontr)
    assume "\<not> nat k \<le> length ps"
    then have "length ps < nat k" by simp
    with r(1) show False by blast
  qed
  with r(2) have "predictions = map (label_entry labels) (take (nat k) ps)"
    by (simp add: map_nth_upt)
  with a le show ?thesis by blast
qed

lemma contract_ok:
  assumes "topk_contract tk" "0 \<le> k" "k \<le> int (length xs)"
  shows "\<exists>ps. tk xs k = Inr ps \<and> int (length ps) = k \<and> sorted_wrt (\<lambda>a b. a \<ge> b) (map fst ps)"
proof -
  from assms(1) have "if 0 \<le> k \<and> k \<le> int (length xs)
        then (\<exists>ps. tk xs k = Inr ps \<and> int (length ps) = k \<and> distinct (map snd ps)
                \<and> (\<forall>p \<in> set ps. snd p < length xs \<and> fst p = xs ! snd p)
                \<and> sorted_wrt (\<lambda>a b. a \<ge> b) (map fst ps)
                \<and> (\<forall>i < length xs. i \<notin> snd ` set ps \<longrightarrow> (\<forall>p \<in> set ps. xs ! i \<le> fst p)))
        else (\<exists>m c. tk xs k = Inl (PyExc RuntimeError m c))"
    unfolding topk_contract_def by blast
  with assms(2,3) show ?thesis by auto
qed


lemma length_softmax: "length (softmax xs) = length xs"
  by (simp add: softmax_def)

lemma sample_preprocess:
  "\<exists>t. preprocess_image (sample_env tk) (sample_classifier tk) ''red.jpg'' = Inr t
       \<and> shape t = [1, 3, 224, 224]"
  by (rule preprocess_image_shape[where opened = red_image and px = "im_pixel red_image"])
     (simp_all add: sample_env_def sample_classifier_def red_image_def)

text \<open>
  C1. For a valid image and every \<open>k\<close> from 1 to ten times the size of the label
  table (300 for the 30 labels), \<open>predict\<close> returns exactly \<open>k\<close> entries, also
  when \<open>k\<close> exceeds the table's length. The network is ResNet50 with its ImageNet
  head of 1000 scores, and \<open>torch.topk\<close> keeps its promise.
\<close>

theorem predict_returns_top_k_entries:
  assumes "topk_contract (topk ev)"
    and "preprocess_image ev self image_path = Inr t"
    and "model self = Some net" and "forward net t = Inr outputs"
    and "length outputs = 1000"
    and "class_labels self = Some imagenet_labels"
    and "1 \<le> k" and "k \<le> 10 * int (length imagenet_labels)"
  shows "\<exists>predictions. predict ev self image_path k = Inr predictions
            \<and> int (length predictions) = k"
proof -
  have "length imagenet_labels = 30" by (simp add: imagenet_labels_def)
  with assms(5,7,8) have "0 \<le> k" "k \<le> int (length (softmax outputs))"
    by (simp_all add: length_softmax)
  from contract_ok[OF assms(1) this] obtain ps where
    ps: "topk ev (softmax outputs) k = Inr ps" "int (length ps) = k" by blast
  then have "nat k = length ps" by linarith
  from predict_ok[OF assms(2,3,4) ps(1) assms(6) this] ps(2) show ?thesis by simp
qed

theorem predict_returns_top_k_entries_witness:
  "topk_contract (topk (sample_env topk_stable))
   \<and> 10 * int (length imagenet_labels) = 300
   \<and> (\<exists>predictions. predict (sample_env topk_stable) (sample_classifier topk_stable) ''red.jpg'' 300
          = Inr predictions \<and> int (length predictions) = 300)"
proof -
  obtain t where t: "preprocess_image (sample_env topk_stable) (sample_classifier topk_stable) ''red.jpg'' = Inr t"
    "shape t = [1, 3, 224, 224]"
    using sample_preprocess by blast
  have c: "topk_contract (topk (sample_env topk_stable))"
    by (simp add: sample_env_def topk_stable_contract)
  have n: "10 * int (length imagenet_labels) = 300" by (simp add: imagenet_labels_def)
  have "\<exists>predictions. predict (sample_env topk_stable) (sample_classifier topk_stable) ''red.jpg'' 300
          = Inr predictions \<and> int (length predictions) = 300"
    by (rule predict_returns_top_k_entries[OF c t(1), where net = "flat_net\<lparr>training := False\<rparr>"
          and outputs = "replicate 1000 0"])
       (simp_all add: sample_classifier_def flat_net_def t(2) n)
  with c n show ?thesis by blast
qed

lemma sort_key_sorted_zip:
  assumes "sorted (map f xs)"
  shows "sort_key (\<lambda>p. f (fst p)) (zip xs [0 ..< length xs]) = zip xs [0 ..< length xs]"
proof (rule sort_key_id_if_sorted)
  have "map fst (zip xs [0 ..< length xs]) = xs" by (rule map_fst_zip) simp
  moreover have "map (\<lambda>p. f (fst p)) (zip xs [0 ..< length xs])
                   = map f (map fst (zip xs [0 ..< length xs]))"
    by (simp only: map_map comp_def)
  ultimately have "map (\<lambda>p. f (fst p)) (zip xs [0 ..< length xs]) = map f xs" by (simp only:)
  with assms show "sorted (map (\<lambda>p. f (fst p)) (zip xs [0 ..< length xs]))" by (simp only:)
qed

lemma insort_all_behind:
  "\<forall>x \<in> set xs. f y < f x \<Longrightarrow> foldr (insort_key f) xs [y] = y # sort_key f xs"
proof (induction xs)
  case Nil
  show ?case by (simp add: sort_key_def)
next
  case (Cons x xs)
  then have ih: "foldr (insort_key f) xs [y] = y # sort_key f xs" by simp
  from Cons.prems have "\<not> f x \<le> f y" by (simp add: not_le)
  then have "insort_key f x (y # sort_key f xs) = y # insort_key f x (sort_key f xs)" by simp
  moreover have "sort_key f (x # xs) = insort_key f x (sort_key f xs)" by (simp add: sort_key_def)
  ultimately show ?case using ih by simp
qed

lemma sort_key_snoc_least:
  assumes "\<forall>x \<in> set xs. f y < f x"
  shows "sort_key f (xs @ [y]) = y # sort_key f xs"
  using insort_all_behind[OF assms] by (simp add: sort_key_def)

lemma topk_stable_peaked:
  fixes a b c :: real
  assumes "c \<le> b" and "b < a"
  shows "topk_stable (b # replicate n c @ [a]) 2 = Inr [(a, Suc n), (b, 0)]"
proof -
  let ?front = "b # replicate n c"
  let ?g = "\<lambda>p::real \<times> nat. - fst p"
  have len: "length (?front @ [a]) = Suc (Suc n)" by simp
  have "[0 ..< Suc (Suc n)] = [0 ..< Suc n] @ [Suc n]" by simp
  moreover have "length ?front = length [0 ..< Suc n]" by simp
  ultimately have "zip (?front @ [a]) [0 ..< Suc (Suc n)] = zip ?front [0 ..< Suc n] @ zip [a] [Suc n]"
    by (simp only: zip_append)
  then have z: "zip (?front @ [a]) [0 ..< Suc (Suc n)] = zip ?front [0 ..< length ?front] @ [(a, Suc n)]"
    by (simp del: upt_Suc)
  have behind: "\<forall>p \<in> set (zip ?front [0 ..< length ?front]). ?g (a, Suc n) < ?g p"
  proof
    fix p assume "p \<in> set (zip ?front [0 ..< length ?front])"
    then have "fst p \<in> set ?front" by (metis in_set_zipE prod.collapse)
    with assms show "?g (a, Suc n) < ?g p" by auto
  qed
  have "sorted (map uminus ?front)" using assms by (simp add: sorted_replicate)
  then have s: "sort_key ?g (zip ?front [0 ..< length ?front]) = zip ?front [0 ..< length ?front]"
    by (rule sort_key_sorted_zip[of uminus])
  have "sort_key ?g (zip (?front @ [a]) [0 ..< Suc (Suc n)])
          = (a, Suc n) # zip ?front [0 ..< length ?front]"
    unfolding z sort_key_snoc_least[OF behind] s ..
  also have "zip ?front [0 ..< length ?front] = (b, 0) # zip (replicate n c) [1 ..< Suc n]"
    by (simp add: upt_rec[of 0] del: upt_Suc)
  finally have "take 2 (sort_key ?g (zip (?front @ [a]) [0 ..< Suc (Suc n)])) = [(a, Suc n), (b, 0)]"
    by (simp add: numeral_2_eq_2)
  then show ?thesis
    unfolding topk_stable_def len by simp
qed

lemma softmax_peaked:
  "softmax (ln 2 # replicate n 0 @ [ln 3])
     = (2 / (5 + real n)) # replicate n (1 / (5 + real n)) @ [3 / (5 + real n)]"
proof -
  have "sum_list (map exp (ln 2 # replicate n 0 @ [ln 3 :: real])) = 5 + real n"
    by (simp add: sum_list_replicate)
  then show ?thesis
    unfolding softmax_def by (simp add: map_replicate)
qed

lemma str_nat_999: "str_nat 999 = ''999''"
  by (simp add: str_nat.simps digit_char_def)

lemma sample_predict_ok:
  assumes "tk (softmax (replicate 1000 0)) k = Inr ps" "nat k = length ps"
  shows "predict (sample_env tk) (sample_classifier tk) ''red.jpg'' k
          = Inr (map (label_entry imagenet_labels) ps)"
proof -
  obtain t where t: "preprocess_image (sample_env tk) (sample_classifier tk) ''red.jpg'' = Inr t"
    "shape t = [1, 3, 224, 224]"
    using sample_preprocess by blast
  have tk: "topk (sample_env tk) (softmax (replicate 1000 0)) k = Inr ps"
    using assms(1) by (simp add: sample_env_def)
  show ?thesis
    by (rule predict_ok[OF t(1) _ _ tk _ assms(2), where net = "flat_net\<lparr>training := False\<rparr>"])
       (simp_all add: sample_classifier_def flat_net_def t(2))
qed

lemma classifier_of_preprocess:
  "\<exists>t. preprocess_image (sample_env tk) (classifier_of net) ''red.jpg'' = Inr t
       \<and> shape t = [1, 3, 224, 224]"
  by (rule preprocess_image_shape[where opened = red_image and px = "im_pixel red_image"])
     (simp_all add: sample_env_def classifier_of_def red_image_def)

lemma classifier_of_predict_ok:
  assumes "forward net = (\<lambda>t. if shape t = [1, 3, 224, 224] then Inr outputs else Inl err)"
    and "tk (softmax outputs) k = Inr ps" and "nat k = length ps"
  shows "predict (sample_env tk) (classifier_of net) ''red.jpg'' k
          = Inr (map (label_entry imagenet_labels) ps)"
proof -
  obtain t where t: "preprocess_image (sample_env tk) (classifier_of net) ''red.jpg'' = Inr t"
    "shape t = [1, 3, 224, 224]"
    using classifier_of_preprocess by blast
  have f: "forward net t = Inr outputs" using assms(1) t(2) by simp
  have tk: "topk (sample_env tk) (softmax outputs) k = Inr ps"
    using assms(2) by (simp add: sample_env_def)
  show ?thesis
    by (rule predict_ok[OF t(1) _ f tk _ assms(3)]) (simp_all add: classifier_of_def)
qed

lemma peaked_ranking:
  "topk_stable (softmax (ln 2 # replicate 998 0 @ [ln 3])) 2 = Inr [(3 / 1003, 999), (2 / 1003, 0)]"
proof -
  have "softmax (ln 2 # replicate 998 0 @ [ln 3])
          = (2 / 1003) # replicate 998 (1 / 1003) @ [3 / 1003]"
    using softmax_peaked[of 998] by simp
  moreover have "topk_stable ((2 / 1003) # replicate 998 (1 / 1003) @ [3 / 1003]) 2
          = Inr [(3 / 1003, Suc 998), (2 / 1003, 0)]"
    by (rule topk_stable_peaked) simp_all
  ultimately show ?thesis by simp
qed

lemma peaked_predict:
  "predict (sample_env topk_stable) (classifier_of peaked_net) ''red.jpg'' 2
     = Inr [(''Class_999'', 3 / 1003), (''tench'', 2 / 1003)]"
proof -
  have "predict (sample_env topk_stable) (classifier_of peaked_net) ''red.jpg'' 2
          = Inr (map (label_entry imagenet_labels) [(3 / 1003, 999), (2 / 1003, 0)])"
    using classifier_of_predict_ok[where net = peaked_net and tk = topk_stable and k = 2
        and outputs = "ln 2 # replicate 998 0 @ [ln 3]" and ps = "[(3 / 1003, 999), (2 / 1003, 0)]"
        and err = "raise_new RuntimeError ''expected a 1x3x224x224 input''"] peaked_ranking
    by (simp add: peaked_net_def)
  moreover have "length imagenet_labels = 30" "imagenet_labels ! 0 = ''tench''"
    by (simp_all add: imagenet_labels_def)
  ultimately show ?thesis by (simp add: label_entry_def str_nat_999)
qed



lemma sample_contract: "topk_contract tk \<Longrightarrow> topk_contract (topk (sample_env tk))"
  by (simp add: sample_env_def)




text \<open>
  C3, as the code has it. \<open>torch.topk\<close> accepts \<open>k = 0\<close> and \<open>range(0)\<close> is empty,
  so \<open>predict\<close> with \<open>top_k = 0\<close> on a valid image returns the empty list and
  raises nothing.
\<close>

theorem predict_top_k_zero_is_empty:
  assumes "topk_contract (topk ev)"
    and "preprocess_image ev self image_path = Inr t"
    and "model self = Some net" and "forward net t = Inr outputs"
    and "class_labels self = Some labels"
  shows "predict ev self image_path 0 = Inr []"
proof -
  from contract_ok[OF assms(1), of 0 "softmax outputs"] obtain ps where
    "topk ev (softmax outputs) 0 = Inr ps" "int (length ps) = 0" by auto
  then have "topk ev (softmax outputs) 0 = Inr []" by simp
  from predict_ok[OF assms(2,3,4) this assms(5)] show ?thesis by simp
qed

theorem predict_top_k_zero_is_empty_witness:
  "topk_contract (topk (sample_env topk_stable))
   \<and> predict (sample_env topk_stable) (classifier_of peaked_net) ''red.jpg'' 0 = Inr []"
proof -
  obtain t where t: "preprocess_image (sample_env topk_stable) (classifier_of peaked_net) ''red.jpg'' = Inr t"
    "shape t = [1, 3, 224, 224]"
    using classifier_of_preprocess by blast
  have "predict (sample_env topk_stable) (classifier_of peaked_net) ''red.jpg'' 0 = Inr []"
    by (rule predict_top_k_zero_is_empty[OF sample_contract[OF topk_stable_contract] t(1),
          where net = peaked_net and outputs = "ln 2 # replicate 998 0 @ [ln 3]"])
       (simp_all add: classifier_of_def peaked_net_def t(2))
  then show ?thesis using sample_contract[OF topk_stable_contract] by simp
qed

theorem predict_top_k_zero_counterexample:
  "topk_contract (topk (sample_env topk_stable))
   \<and> predict (sample_env topk_stable) (sample_classifier topk_stable) ''red.jpg'' 0 = Inr []"
  using sample_contract[OF topk_stable_contract] sample_predict_ok[of topk_stable 0 "[]"]
  by (simp add: topk_stable_def)

text \<open>
  C5. Every entry returned by \<open>predict\<close> carries, for the class index at its rank,
  the label table's name when the index is below the table's length and
  \<open>Class_<index>\<close> otherwise, with the confidence at that rank.
\<close>

theorem predict_labels_from_table:
  assumes "predict ev self image_path k = Inr predictions"
    and "class_labels self = Some labels"
  shows "\<exists>t net outputs ranked.
           preprocess_image ev self image_path = Inr t \<and> model self = Some net
           \<and> forward net t = Inr outputs \<and> topk ev (softmax outputs) k = Inr ranked
           \<and> length predictions = nat k \<and> nat k \<le> length ranked
           \<and> (\<forall>i < length predictions.
                 fst (predictions ! i) =
                   (if snd (ranked ! i) < length labels then labels ! snd (ranked ! i)
                    else ''Class_'' @ str_nat (snd (ranked ! i)))
                 \<and> snd (predictions ! i) = fst (ranked ! i))"
proof -
  from predict_InrD[OF assms] obtain t net outputs ps where
    a: "preprocess_image ev self image_path = Inr t" "model self = Some net"
      "forward net t = Inr outputs" "topk ev (softmax outputs) k = Inr ps"
      "nat k \<le> length ps" "predictions = map (label_entry labels) (take (nat k) ps)"
    by blast
  have len: "length predictions = nat k" using a(5,6) by simp
  have "\<forall>i < length predictions.
          fst (predictions ! i) =
            (if snd (ps ! i) < length labels then labels ! snd (ps ! i)
             else ''Class_'' @ str_nat (snd (ps ! i)))
          \<and> snd (predictions ! i) = fst (ps ! i)"
    using a(5,6) by (simp add: label_entry_def Let_def)
  with a len show ?thesis by blast
qed

theorem predict_labels_from_table_witness:
  "predict (sample_env topk_stable) (classifier_of peaked_net) ''red.jpg'' 2
       = Inr [(''Class_999'', 3 / 1003), (''tench'', 2 / 1003)]
   \<and> topk (sample_env topk_stable) (softmax (ln 2 # replicate 998 0 @ [ln 3])) 2
       = Inr [(3 / 1003, 999), (2 / 1003, 0)]
   \<and> length imagenet_labels = 30
   \<and> ''Class_999'' = ''Class_'' @ str_nat 999
   \<and> ''tench'' = imagenet_labels ! 0"
proof -
  obtain t where t: "preprocess_image (sample_env topk_stable) (classifier_of peaked_net) ''red.jpg'' = Inr t"
    "shape t = [1, 3, 224, 224]"
    using classifier_of_preprocess by blast
  have tk: "topk (sample_env topk_stable) (softmax (ln 2 # replicate 998 0 @ [ln 3])) 2
              = Inr [(3 / 1003, 999), (2 / 1003, 0)]"
    using peaked_ranking by (simp add: sample_env_def)
  have len: "length imagenet_labels = 30" by (simp add: imagenet_labels_def)
  from predict_labels_from_table[OF peaked_predict, of imagenet_labels]
  obtain t' net outputs ranked where r:
    "preprocess_image (sample_env topk_stable) (classifier_of peaked_net) ''red.jpg'' = Inr t'"
    "model (classifier_of peaked_net) = Some net" "forward net t' = Inr outputs"
    "topk (sample_env topk_stable) (softmax outputs) 2 = Inr ranked"
    "\<forall>i < 2. fst ([(''Class_999'', 3 / 1003 :: real), (''tench'', 2 / 1003)] ! i) =
                   (if snd (ranked ! i) < length imagenet_labels then imagenet_labels ! snd (ranked ! i)
                    else ''Class_'' @ str_nat (snd (ranked ! i)))"
    by (auto simp: classifier_of_def)
  from r(1) t have "t' = t" by simp
  with r(2,3) t(2) have "outputs = ln 2 # replicate 998 0 @ [ln 3]"
    by (auto simp: classifier_of_def peaked_net_def)
  with r(4) tk have ranked: "ranked = [(3 / 1003, 999), (2 / 1003, 0)]" by simp
  have "''Class_999'' = ''Class_'' @ str_nat 999"
    using r(5)[THEN spec, of 0] unfolding ranked len by simp
  moreover have "''tench'' = imagenet_labels ! 0"
    using r(5)[THEN spec, of 1] unfolding ranked len by simp
  ultimately show ?thesis using peaked_predict tk len by simp
qed

lemma round_half_centred:
  "2 * round_half d \<le> d + 1 \<and> d \<le> 2 * round_half d + 1 \<and> (odd d \<longrightarrow> even (round_half d))"
  unfolding round_half_def by (cases "even d"; cases "even (d div 2)") (auto elim!: evenE oddE)

lemma resize_256_explicit:
  assumes "0 < im_width img" "0 < im_height img"
  defines "new_w \<equiv> (if im_width img \<le> im_height img then 256
                      else 256 * im_width img div im_height img)"
    and "new_h \<equiv> (if im_width img \<le> im_height img then 256 * im_height img div im_width img
                      else 256)"
  shows "\<exists>r. resize rs 256 img = Inr r \<and> im_width r = new_w \<and> im_height r = new_h
           \<and> im_mode r = im_mode img
           \<and> im_pixel r = (if (im_width img, im_height img) = (new_w, new_h) then im_pixel img
                            else rs img new_w new_h)
           \<and> 256 \<le> new_w \<and> 256 \<le> new_h"
proof (cases "im_width img \<le> im_height img")
  case True
  have "256 * im_width img div im_width img \<le> 256 * im_height img div im_width img"
    using True by (intro div_le_mono) simp
  then have "256 \<le> 256 * im_height img div im_width img" using assms by simp
  then show ?thesis using True assms(1,2) unfolding new_w_def new_h_def
    by (auto simp: resize_def Let_def)
next
  case False
  have "256 * im_height img div im_height img \<le> 256 * im_width img div im_height img"
    using False by (intro div_le_mono) simp
  then have "256 \<le> 256 * im_width img div im_height img" using assms by simp
  then show ?thesis using False assms(1,2) unfolding new_w_def new_h_def
    by (auto simp: resize_def Let_def)
qed

text \<open>
  C6. For a decodable image with positive sides, \<open>preprocess_image\<close> gives a tensor
  of shape (1, 3, 224, 224). Its element at batch 0, channel \<open>c\<close>, row \<open>y\<close>, column
  \<open>x\<close> is the pixel of the resized RGB image at row \<open>y + crop_top\<close>, column
  \<open>x + crop_left\<close>, divided by 255, less the channel's mean, over the channel's
  standard deviation. The resized image has 256 on its shorter side and
  \<open>256 * long div short\<close> on the other (the decoded pixels unchanged when that is
  its size already, resampled otherwise), and the offsets are half of what the
  resized sides exceed 224 by, a half rounded to the even neighbour.
\<close>

theorem preprocess_image_tensor_shape:
  assumes "image_open ev image_path = Inr opened" and "decode_as ev RGB opened = Inr px"
    and "0 < im_width opened" and "0 < im_height opened"
    and "transform self = Some (compose_transforms (resample ev))"
  shows "\<exists>new_w new_h rpx crop_top crop_left t.
           new_w = (if im_width opened \<le> im_height opened then 256
                    else 256 * im_width opened div im_height opened)
           \<and> new_h = (if im_width opened \<le> im_height opened
                      then 256 * im_height opened div im_width opened else 256)
           \<and> rpx = (if (im_width opened, im_height opened) = (new_w, new_h) then px
                    else resample ev (opened\<lparr>im_mode := RGB, im_pixel := px\<rparr>) new_w new_h)
           \<and> 224 \<le> new_w \<and> 224 \<le> new_h
           \<and> 2 * crop_top \<le> new_h - 224 + 1 \<and> new_h - 224 \<le> 2 * crop_top + 1
           \<and> (odd (new_h - 224) \<longrightarrow> even crop_top)
           \<and> 2 * crop_left \<le> new_w - 224 + 1 \<and> new_w - 224 \<le> 2 * crop_left + 1
           \<and> (odd (new_w - 224) \<longrightarrow> even crop_left)
           \<and> preprocess_image ev self image_path = Inr t
           \<and> shape t = [1, 3, 224, 224]
           \<and> (\<forall>c y x. elem t [0, c, y, x] =
                 (rpx c (y + crop_top) (x + crop_left) / 255 - [485 / 1000, 456 / 1000, 406 / 1000] ! c)
                   / [229 / 1000, 224 / 1000, 225 / 1000] ! c)"
proof -
  let ?img = "opened\<lparr>im_mode := RGB, im_pixel := px\<rparr>"
  define new_w where "new_w = (if im_width opened \<le> im_height opened then 256
                    else 256 * im_width opened div im_height opened)"
  define new_h where "new_h = (if im_width opened \<le> im_height opened
                      then 256 * im_height opened div im_width opened else 256)"
  define rpx where "rpx = (if (im_width opened, im_height opened) = (new_w, new_h) then px
                    else resample ev ?img new_w new_h)"
  have pos: "0 < im_width ?img" "0 < im_height ?img" using assms(3,4) by simp_all
  from resize_256_explicit[OF pos, of "resample ev"]
  obtain r where r: "resize (resample ev) 256 ?img = Inr r" "im_width r = new_w"
    "im_height r = new_h" "im_mode r = RGB" "im_pixel r = rpx" "256 \<le> new_w" "256 \<le> new_h"
    unfolding new_w_def new_h_def rpx_def by auto
  define crop_top where "crop_top = round_half (new_h - 224)"
  define crop_left where "crop_left = round_half (new_w - 224)"
  let ?t = "\<lparr>shape = [1, 3, 224, 224],
            elem = (\<lambda>idx. (rpx (tl idx ! 0) (tl idx ! 1 + crop_top) (tl idx ! 2 + crop_left) / 255
                              - imagenet_mean ! (tl idx ! 0)) / imagenet_std ! (tl idx ! 0))\<rparr>"
  have big: "\<not> 224 > im_width r" "\<not> 224 > im_height r" using r(2,3,6,7) by simp_all
  have "compose_transforms (resample ev) ?img =
          Inr \<lparr>shape = [3, 224, 224],
               elem = (\<lambda>idx. (rpx (idx ! 0) (idx ! 1 + crop_top) (idx ! 2 + crop_left) / 255
                              - imagenet_mean ! (idx ! 0)) / imagenet_std ! (idx ! 0))\<rparr>"
    using r(1,2,3,4,5) big
    by (simp add: compose_transforms_def center_crop_def to_tensor_def normalize_def
        imagenet_mean_def Let_def crop_top_def crop_left_def)
  then have p: "preprocess_image ev self image_path = Inr ?t"
    using assms(1,2,5)
    by (simp add: preprocess_image_def preprocess_body_def convert_def unsqueeze0_def)
  have e: "\<forall>c y x. elem ?t [0, c, y, x] =
                 (rpx c (y + crop_top) (x + crop_left) / 255 - [485 / 1000, 456 / 1000, 406 / 1000] ! c)
                   / [229 / 1000, 224 / 1000, 225 / 1000] ! c"
    by (simp add: imagenet_mean_def imagenet_std_def)
  have s: "shape ?t = [1, 3, 224, 224]" by simp
  have ct: "2 * crop_top \<le> new_h - 224 + 1" "new_h - 224 \<le> 2 * crop_top + 1"
    "odd (new_h - 224) \<longrightarrow> even crop_top"
    using round_half_centred[of "new_h - 224"] unfolding crop_top_def by simp_all
  have cl: "2 * crop_left \<le> new_w - 224 + 1" "new_w - 224 \<le> 2 * crop_left + 1"
    "odd (new_w - 224) \<longrightarrow> even crop_left"
    using round_half_centred[of "new_w - 224"] unfolding crop_left_def by simp_all
  have ge: "224 \<le> new_w" "224 \<le> new_h" using r(6,7) by simp_all
  show ?thesis
    apply (rule exI[of _ new_w], rule exI[of _ new_h], rule exI[of _ rpx],
           rule exI[of _ crop_top], rule exI[of _ crop_left], rule exI[of _ ?t])
    apply (intro conjI)
    using new_w_def new_h_def rpx_def ge ct cl p s e by blast+
qed

theorem preprocess_image_tensor_shape_witness:
  "image_open (sample_env topk_stable) ''red.jpg'' = Inr red_image
   \<and> im_width red_image = 100 \<and> im_height red_image = 100
   \<and> (\<exists>t. preprocess_image (sample_env topk_stable) (sample_classifier topk_stable) ''red.jpg'' = Inr t
          \<and> shape t = [1, 3, 224, 224]
          \<and> elem t [0, 0, 0, 0] = (1 - 485 / 1000) / (229 / 1000)
          \<and> elem t [0, 1, 223, 223] = (0 - 456 / 1000) / (224 / 1000))"
proof -
  let ?ev = "sample_env topk_stable"
  have o: "image_open ?ev ''red.jpg'' = Inr red_image"
    and d: "decode_as ?ev RGB red_image = Inr (im_pixel red_image)"
    and r: "resample ?ev = nearest"
    and w: "im_width red_image = 100" and h: "im_height red_image = 100"
    and tf: "transform (sample_classifier topk_stable) = Some (compose_transforms (resample ?ev))"
    by (simp_all add: sample_env_def sample_classifier_def red_image_def)
  have pos: "0 < im_width red_image" "0 < im_height red_image" using w h by simp_all
  from preprocess_image_tensor_shape[OF o d pos tf]
  obtain rpx crop_top crop_left t where
    rpx: "rpx = nearest (red_image\<lparr>im_mode := RGB, im_pixel := im_pixel red_image\<rparr>) 256 256"
    and t: "preprocess_image ?ev (sample_classifier topk_stable) ''red.jpg'' = Inr t"
      "shape t = [1, 3, 224, 224]"
    and e: "\<forall>c y x. elem t [0, c, y, x] =
                 (rpx c (y + crop_top) (x + crop_left) / 255 - [485 / 1000, 456 / 1000, 406 / 1000] ! c)
                   / [229 / 1000, 224 / 1000, 225 / 1000] ! c"
    unfolding w h r by auto
  have px: "rpx c y x = (if c = 0 then 255 else 0)" for c y x
    unfolding rpx by (simp add: nearest_def red_image_def)
  have "elem t [0, 0, 0, 0] = (1 - 485 / 1000) / (229 / 1000)"
    using e[THEN spec, THEN spec, THEN spec, of 0 0 0] by (simp add: px)
  moreover have "elem t [0, 1, 223, 223] = (0 - 456 / 1000) / (224 / 1000)"
    using e[THEN spec, THEN spec, THEN spec, of 1 223 223] by (simp add: px)
  ultimately show ?thesis using o w h t by blast
qed

text \<open>
  C4. Whatever \<open>Image.open\<close> or the pixel decoder raises (a missing file, an empty
  one, one that is no image, one cut short), \<open>preprocess_image\<close> raises the one
  error kind of the module for it, \<open>ValueError\<close> with the decoder's message in its
  own, never the decoder's exception itself.
\<close>

theorem preprocess_image_uniform_error:
  assumes "image_open ev image_path = Inl e
           \<or> (\<exists>opened. image_open ev image_path = Inr opened \<and> decode_as ev RGB opened = Inl e)"
  shows "preprocess_image ev self image_path
           = Inl (PyExc ValueError (''Cannot process image: '' @ exc_str e) (Some e))"
  using assms
  by (auto simp: preprocess_image_def preprocess_body_def convert_def raise_handling_def)

theorem preprocess_image_uniform_error_witness:
  "preprocess_image (sample_env topk_stable) (sample_classifier topk_stable) ''nonexistent_file.jpg''
       = Inl (PyExc ValueError ''Cannot process image: No such file or directory''
               (Some (PyExc FileNotFoundError ''No such file or directory'' None)))
   \<and> preprocess_image (sample_env topk_stable) (sample_classifier topk_stable) ''empty.jpg''
       = Inl (PyExc ValueError ''Cannot process image: cannot identify image file''
               (Some (PyExc UnidentifiedImageError ''cannot identify image file'' None)))
   \<and> preprocess_image (sample_env topk_stable) (sample_classifier topk_stable) ''truncated.jpg''
       = Inl (PyExc ValueError ''Cannot process image: image file is truncated''
               (Some (PyExc OSError ''image file is truncated'' None)))"
  using preprocess_image_uniform_error[of "sample_env topk_stable" "''nonexistent_file.jpg''"
      "PyExc FileNotFoundError ''No such file or directory'' None" "sample_classifier topk_stable"]
    preprocess_image_uniform_error[of "sample_env topk_stable" "''empty.jpg''"
      "PyExc UnidentifiedImageError ''cannot identify image file'' None" "sample_classifier topk_stable"]
    preprocess_image_uniform_error[of "sample_env topk_stable" "''truncated.jpg''"
      "PyExc OSError ''image file is truncated'' None" "sample_classifier topk_stable"]
  by (simp add: sample_env_def raise_new_def truncated_image_def)

text \<open>
  C7. Whatever fails inside \<open>predict\<close> (preprocessing, the forward pass, the
  ranking), \<open>predict\<close> raises \<open>ValueError\<close> with the failure's message in its own
  and the failure attached as its context; a failure of \<open>Image.open\<close> is one link
  further down the same chain.
\<close>

theorem predict_wraps_failure:
  assumes "preprocess_image ev self image_path = Inl e
           \<or> (\<exists>t. preprocess_image ev self image_path = Inr t
                 \<and> ((model self = None \<and> e = raise_new TypeError ''NoneType object is not callable'')
                    \<or> (\<exists>net. model self = Some net
                          \<and> (forward net t = Inl e
                              \<or> (\<exists>outputs. forward net t = Inr outputs
                                    \<and> topk ev (softmax outputs) k = Inl e)))))"
  shows "predict ev self image_path k
           = Inl (PyExc ValueError (''Prediction failed: '' @ exc_str e) (Some e))
         \<and> (\<forall>e0. image_open ev image_path = Inl e0 \<longrightarrow>
               e = PyExc ValueError (''Cannot process image: '' @ exc_str e0) (Some e0))"
proof
  show "predict ev self image_path k
           = Inl (PyExc ValueError (''Prediction failed: '' @ exc_str e) (Some e))"
    using assms by (auto simp: predict_def predict_body_def raise_handling_def)
  show "\<forall>e0. image_open ev image_path = Inl e0 \<longrightarrow>
               e = PyExc ValueError (''Cannot process image: '' @ exc_str e0) (Some e0)"
  proof (intro allI impI)
    fix e0 assume "image_open ev image_path = Inl e0"
    then have "preprocess_image ev self image_path
                 = Inl (PyExc ValueError (''Cannot process image: '' @ exc_str e0) (Some e0))"
      by (simp add: preprocess_image_def preprocess_body_def raise_handling_def)
    with assms show "e = PyExc ValueError (''Cannot process image: '' @ exc_str e0) (Some e0)"
      by auto
  qed
qed

theorem predict_wraps_failure_witness:
  "predict (sample_env topk_stable) (sample_classifier topk_stable) ''nonexistent_file.jpg'' 5
     = Inl (PyExc ValueError ''Prediction failed: Cannot process image: No such file or directory''
         (Some (PyExc ValueError ''Cannot process image: No such file or directory''
            (Some (PyExc FileNotFoundError ''No such file or directory'' None)))))"
proof -
  have "preprocess_image (sample_env topk_stable) (sample_classifier topk_stable) ''nonexistent_file.jpg''
          = Inl (PyExc ValueError ''Cannot process image: No such file or directory''
                  (Some (PyExc FileNotFoundError ''No such file or directory'' None)))"
    by (simp add: preprocess_image_def preprocess_body_def sample_env_def raise_handling_def
        raise_new_def)
  then show ?thesis
    using predict_wraps_failure[of "sample_env topk_stable" "sample_classifier topk_stable"
        "''nonexistent_file.jpg''"
        "PyExc ValueError ''Cannot process image: No such file or directory''
                  (Some (PyExc FileNotFoundError ''No such file or directory'' None))" 5]
    by simp
qed

text \<open>
  C10. Every classifier that \<open>create_classifier\<close> returns has its model loaded (and
  in evaluation mode), its transform and its labels; when the model cannot be loaded
  no classifier is returned.
\<close>

theorem create_classifier_is_loaded:
  "(create_classifier ev = Inr c \<longrightarrow>
      is_model_loaded c \<and> transform c \<noteq> None \<and> class_labels c = Some imagenet_labels
      \<and> (\<exists>net. resnet50 ev = Inr net \<and> model c = Some (net\<lparr>training := False\<rparr>)))
   \<and> (case create_classifier ev of
         Inl e \<Rightarrow> resnet50 ev = Inl e
       | Inr made \<Rightarrow> is_model_loaded made)"
  by (auto simp: create_classifier_def init_def setup_model_def setup_transforms_def
      load_imagenet_labels_def is_model_loaded_def split: sum.splits)

theorem create_classifier_is_loaded_witness:
  "create_classifier (sample_env topk_stable) = Inr (sample_classifier topk_stable)
   \<and> is_model_loaded (sample_classifier topk_stable)"
  using create_classifier_is_loaded[of "sample_env topk_stable" "sample_classifier topk_stable"]
    create_sample_classifier[of topk_stable]
  by simp

section \<open>Properties of the interface\<close>

lemma select_image_classifier: "classifier (select_image ev p g) = classifier g"
  by (simp add: select_image_def clear_results_def display_image_def split: sum.splits)

lemma classify_image_rejected:
  "classifier (gui s) = None \<Longrightarrow>
     workers (classify_image s) = workers s \<and> classifier (gui (classify_image s)) = None"
  by (simp add: classify_image_def)

lemma run_callback_keeps:
  "workers (run_callback cb s) = workers s \<and> classifier (gui (run_callback cb s)) = classifier (gui s)"
  by (cases cb)
     (simp_all add: on_model_loaded_def on_model_error_def on_classification_start_def
       on_classification_complete_def on_classification_error_def clear_results_def
       display_results_def report_callback_exception_def split: sum.splits)

lemma mainloop_dispatch_keeps:
  "workers (mainloop_dispatch s) = workers s
   \<and> classifier (gui (mainloop_dispatch s)) = classifier (gui s)"
  by (simp add: mainloop_dispatch_def run_callback_keeps split: list.splits)

lemma set_update_cases: "x \<in> set (xs[i := y]) \<Longrightarrow> x = y \<or> x \<in> set xs"
  using set_update_subset_insert by fastforce

lemma worker_step_load_failed:
  assumes "load_failed s"
  shows "load_failed (worker_step ev tid s) \<and> length (workers (worker_step ev tid s)) = length (workers s)"
proof (cases "tid < length (workers s)")
  case False
  with assms show ?thesis by (simp add: worker_step_def)
next
  case True
  let ?w = "workers s ! tid"
  have mem: "?w \<in> set (workers s)" using True by simp
  have inv: "classifier (gui s) = None"
    "\<And>w. w \<in> set (workers s) \<Longrightarrow> task w = LoadModel \<Longrightarrow> pc w \<noteq> AtTry"
    using assms by (auto simp: load_failed_def)
  show ?thesis
  proof (cases "task ?w")
    case LoadModel
    with inv(2)[OF mem] have "pc ?w \<noteq> AtTry" by simp
    then show ?thesis
      using True LoadModel inv
      by (cases "pc ?w")
         (auto simp: worker_step_def load_in_background_def set_worker_def load_failed_def
           dest!: set_update_cases)
  next
    case ClassifyImage
    then show ?thesis
      using True inv
      by (cases "pc ?w")
         (auto simp: worker_step_def classify_in_background_def set_worker_def load_failed_def
           root_after_def call_predict_def dest!: set_update_cases)
  qed
qed

lemma step_load_failed:
  assumes "load_failed s"
  shows "load_failed (step ev a s) \<and> length (workers (step ev a s)) = length (workers s)"
proof (cases a)
  case (SelectImage p)
  with assms show ?thesis by (simp add: load_failed_def select_image_classifier)
next
  case ClickClassify
  with assms classify_image_rejected[of s] show ?thesis by (simp add: load_failed_def)
next
  case CallClassifyImage
  with assms classify_image_rejected[of s] show ?thesis by (simp add: load_failed_def)
next
  case Dispatch
  with assms mainloop_dispatch_keeps[of s] show ?thesis by (simp add: load_failed_def)
next
  case (Worker tid)
  with worker_step_load_failed[OF assms] show ?thesis by simp
qed

lemma run_load_failed:
  "load_failed s \<Longrightarrow> load_failed (run ev acts s) \<and> length (workers (run ev acts s)) = length (workers s)"
proof (induction acts arbitrary: s)
  case Nil
  then show ?case by simp
next
  case (Cons a acts)
  from step_load_failed[OF Cons.prems] have
    "load_failed (step ev a s)" "length (workers (step ev a s)) = length (workers s)" by simp_all
  with Cons.IH[of "step ev a s"] show ?case by simp
qed

lemma failing_create: "create_classifier failing_env = Inl (raise_new RuntimeError ''Model loading failed'')"
  by (simp add: failing_env_def create_classifier_def init_def setup_model_def)

lemma init_gui_eq:
  "init_gui = \<lparr>gui = setup_ui, workers = [\<lparr>task = LoadModel, pc = AtTry, exc_var = None\<rparr>],
               after_queue = [], callback_errors = []\<rparr>"
  by (simp add: init_gui_def load_model_def start_thread_def)

lemma load_fails_first:
  "step failing_env (Worker 0) init_gui =
     \<lparr>gui = setup_ui\<lparr>progress_running := True\<rparr>,
      workers = [\<lparr>task = LoadModel, pc = InExcept,
                  exc_var = Some (raise_new RuntimeError ''Model loading failed'')\<rparr>],
      after_queue = [ModelErrorLambda 0], callback_errors = []\<rparr>"
  by (simp add: init_gui_eq worker_step_def load_in_background_def failing_create
      set_worker_def root_after_def)

lemma load_fails_then_leaves:
  "run failing_env [Worker 0, Worker 0] init_gui =
     \<lparr>gui = setup_ui\<lparr>progress_running := True\<rparr>,
      workers = [\<lparr>task = LoadModel, pc = Finished, exc_var = None\<rparr>],
      after_queue = [ModelErrorLambda 0], callback_errors = []\<rparr>"
  by (simp add: init_gui_eq failing_create root_after_def worker_step_def load_in_background_def set_worker_def)

lemma load_error_lost_state:
  "run failing_env [Worker 0, Worker 0, Dispatch] init_gui =
     \<lparr>gui = setup_ui\<lparr>progress_running := True\<rparr>,
      workers = [\<lparr>task = LoadModel, pc = Finished, exc_var = None\<rparr>],
      after_queue = [],
      callback_errors = [raise_new NameError
        ''cannot access free variable e where it is not associated with a value in enclosing scope'']\<rparr>"
  by (simp add: init_gui_eq failing_create root_after_def worker_step_def load_in_background_def set_worker_def
      mainloop_dispatch_def read_exc_var_def report_callback_exception_def)

lemma load_error_shown_state:
  "run failing_env [Worker 0, Dispatch, Worker 0] init_gui =
     \<lparr>gui = setup_ui\<lparr>progress_running := False, status_label := (''Model loading failed'', ''red''),
                   dialogs := [ShowError ''Model Error'' ''Failed to load model: Model loading failed'']\<rparr>,
      workers = [\<lparr>task = LoadModel, pc = Finished, exc_var = None\<rparr>],
      after_queue = [], callback_errors = []\<rparr>"
  by (simp add: init_gui_eq failing_create root_after_def worker_step_def load_in_background_def set_worker_def
      mainloop_dispatch_def read_exc_var_def on_model_error_def raise_new_def setup_ui_def)

lemma sample_predict_truncated:
  "predict (sample_env tk) (sample_classifier tk) ''truncated.jpg'' 5 =
     Inl (PyExc ValueError ''Prediction failed: Cannot process image: image file is truncated''
       (Some (PyExc ValueError ''Cannot process image: image file is truncated''
          (Some (PyExc OSError ''image file is truncated'' None)))))"
  by (simp add: predict_def predict_body_def preprocess_image_def preprocess_body_def convert_def
      sample_env_def truncated_image_def raise_handling_def raise_new_def)

lemma sample_open_truncated:
  "image_open (sample_env tk) ''truncated.jpg'' = Inr truncated_image"
  "decode_as (sample_env tk) m truncated_image = Inl (PyExc OSError ''image file is truncated'' None)"
  "im_mode truncated_image = RGB"
  by (simp_all add: sample_env_def truncated_image_def raise_new_def)

lemma classify_started_state:
  "run (sample_env tk) [Worker 0, Dispatch, SelectImage ''truncated.jpg'', ClickClassify] init_gui =
     \<lparr>gui = \<lparr>classifier = Some (sample_classifier tk), current_image_path = Some ''truncated.jpg'',
              predict_button = NORMAL, file_label = ''Selected: truncated.jpg'',
              status_label = (''Model loaded successfully'', ''green''), progress_running = False,
              results_text = [], image_label_text = ''Error loading image: image file is truncated'',
              image_label_image = None,
              dialogs = []\<rparr>,
      workers = [\<lparr>task = LoadModel, pc = Finished, exc_var = None\<rparr>,
                 \<lparr>task = ClassifyImage, pc = AtTry, exc_var = None\<rparr>],
      after_queue = [], callback_errors = []\<rparr>"
  by (simp add: init_gui_eq worker_step_def load_in_background_def create_sample_classifier
      set_worker_def root_after_def mainloop_dispatch_def on_model_loaded_def setup_ui_def
      select_image_def display_image_def clear_results_def classify_image_def no_image_selected_def
      start_thread_def basename_def sample_open_truncated)

lemma run_append: "run ev (xs @ ys) s = run ev ys (run ev xs s)"
  by (induction xs arbitrary: s) simp_all

lemma classification_error_lost_state:
  "run (sample_env tk) [Worker 0, Dispatch, SelectImage ''truncated.jpg'', ClickClassify,
                        Worker 1, Worker 1, Worker 1, Dispatch, Dispatch] init_gui =
     \<lparr>gui = \<lparr>classifier = Some (sample_classifier tk), current_image_path = Some ''truncated.jpg'',
              predict_button = DISABLED, file_label = ''Selected: truncated.jpg'',
              status_label = (''Classifying...'', ''blue''), progress_running = True,
              results_text = [], image_label_text = ''Error loading image: image file is truncated'',
              image_label_image = None,
              dialogs = []\<rparr>,
      workers = [\<lparr>task = LoadModel, pc = Finished, exc_var = None\<rparr>,
                 \<lparr>task = ClassifyImage, pc = Finished, exc_var = None\<rparr>],
      after_queue = [],
      callback_errors = [raise_new NameError
        ''cannot access free variable e where it is not associated with a value in enclosing scope'']\<rparr>"
proof -
  have "run (sample_env tk) ([Worker 0, Dispatch, SelectImage ''truncated.jpg'', ClickClassify]
                        @ [Worker 1, Worker 1, Worker 1, Dispatch, Dispatch]) init_gui =
     \<lparr>gui = \<lparr>classifier = Some (sample_classifier tk), current_image_path = Some ''truncated.jpg'',
              predict_button = DISABLED, file_label = ''Selected: truncated.jpg'',
              status_label = (''Classifying...'', ''blue''), progress_running = True,
              results_text = [], image_label_text = ''Error loading image: image file is truncated'',
              image_label_image = None,
              dialogs = []\<rparr>,
      workers = [\<lparr>task = LoadModel, pc = Finished, exc_var = None\<rparr>,
                 \<lparr>task = ClassifyImage, pc = Finished, exc_var = None\<rparr>],
      after_queue = [],
      callback_errors = [raise_new NameError
        ''cannot access free variable e where it is not associated with a value in enclosing scope'']\<rparr>"
    unfolding run_append classify_started_state
    by (simp add: worker_step_def classify_in_background_def call_predict_def
        sample_predict_truncated set_worker_def root_after_def mainloop_dispatch_def
        on_classification_start_def clear_results_def read_exc_var_def
        report_callback_exception_def)
  then show ?thesis by simp
qed

text \<open>
  C8. When the load fails and the thread has left its \<open>except\<close> clause before the
  main loop runs the queued lambda, the lambda finds \<open>e\<close> unbound and raises
  \<open>NameError\<close>: \<open>_on_model_error\<close> is never called, no message box opens, the
  status stays at loading and the progress bar keeps running. A classification that
  fails goes the same way: \<open>_on_classification_error\<close> is never called and the
  classify button stays disabled.
\<close>

theorem background_error_never_displayed:
  "create_classifier failing_env = Inl (raise_new RuntimeError ''Model loading failed'')
   \<and> dialogs (gui (run failing_env [Worker 0, Worker 0, Dispatch] init_gui)) = []
   \<and> status_label (gui (run failing_env [Worker 0, Worker 0, Dispatch] init_gui))
        = (''Loading model...'', ''blue'')
   \<and> progress_running (gui (run failing_env [Worker 0, Worker 0, Dispatch] init_gui))
   \<and> after_queue (run failing_env [Worker 0, Worker 0, Dispatch] init_gui) = []
   \<and> map exc_class (callback_errors (run failing_env [Worker 0, Worker 0, Dispatch] init_gui))
        = [NameError]
   \<and> dialogs (gui (run (sample_env topk_stable)
          [Worker 0, Dispatch, SelectImage ''truncated.jpg'', ClickClassify,
           Worker 1, Worker 1, Worker 1, Dispatch, Dispatch] init_gui)) = []
   \<and> predict_button (gui (run (sample_env topk_stable)
          [Worker 0, Dispatch, SelectImage ''truncated.jpg'', ClickClassify,
           Worker 1, Worker 1, Worker 1, Dispatch, Dispatch] init_gui)) = DISABLED
   \<and> status_label (gui (run (sample_env topk_stable)
          [Worker 0, Dispatch, SelectImage ''truncated.jpg'', ClickClassify,
           Worker 1, Worker 1, Worker 1, Dispatch, Dispatch] init_gui)) = (''Classifying...'', ''blue'')
   \<and> map exc_class (callback_errors (run (sample_env topk_stable)
          [Worker 0, Dispatch, SelectImage ''truncated.jpg'', ClickClassify,
           Worker 1, Worker 1, Worker 1, Dispatch, Dispatch] init_gui)) = [NameError]"
  unfolding load_error_lost_state classification_error_lost_state
  by (simp add: failing_create setup_ui_def raise_new_def)

lemma load_failed_after_failure: "load_failed (run failing_env [Worker 0, Worker 0, Dispatch] init_gui)"
  unfolding load_error_lost_state by (simp add: load_failed_def setup_ui_def)

text \<open>
  C9, as the code has it. Once the load has failed, whatever the user, the main loop
  and the threads do next, no classifier is ever stored and no thread is ever
  started: \<open>classify_image\<close> starts none, and with an image selected it answers
  with the error box that the model is not loaded. The classify button itself does
  not stay disabled: see the counterexample, where selecting an image enables it.
\<close>

theorem classify_rejected_after_load_failure:
  assumes "classifier (gui s) = None"
    and "\<forall>w \<in> set (workers s). task w = LoadModel \<longrightarrow> pc w \<noteq> AtTry"
  shows "classifier (gui (run ev acts s)) = None
         \<and> length (workers (run ev acts s)) = length (workers s)
         \<and> workers (step ev CallClassifyImage (run ev acts s)) = workers (run ev acts s)
         \<and> (\<not> no_image_selected (gui (run ev acts s)) \<longrightarrow>
               dialogs (gui (step ev CallClassifyImage (run ev acts s)))
                 = dialogs (gui (run ev acts s)) @ [ShowError ''Model Error'' ''Model is not loaded.''])"
proof -
  from assms have "load_failed s" by (simp add: load_failed_def)
  from run_load_failed[OF this, of ev acts] have
    r: "load_failed (run ev acts s)" "length (workers (run ev acts s)) = length (workers s)"
    by simp_all
  then have c: "classifier (gui (run ev acts s)) = None" by (simp add: load_failed_def)
  then show ?thesis using r(2) by (simp add: classify_image_def)
qed

theorem select_image_enables_classify_counterexample:
  "classifier (gui (run failing_env [Worker 0, Worker 0, Dispatch] init_gui)) = None
   \<and> predict_button (gui (run failing_env [Worker 0, Worker 0, Dispatch] init_gui)) = DISABLED
   \<and> predict_button (gui (run failing_env [Worker 0, Worker 0, Dispatch, SelectImage ''red.jpg''] init_gui))
        = NORMAL"
proof -
  have "run failing_env [Worker 0, Worker 0, Dispatch, SelectImage ''red.jpg''] init_gui
          = step failing_env (SelectImage ''red.jpg'') (run failing_env [Worker 0, Worker 0, Dispatch] init_gui)"
    by simp
  then show ?thesis
    unfolding load_error_lost_state
    by (simp add: setup_ui_def select_image_def clear_results_def display_image_def
        split: sum.splits)
qed

theorem classify_rejected_after_load_failure_witness:
  "classifier (gui (run failing_env [Worker 0, Worker 0, Dispatch] init_gui)) = None
   \<and> length (workers (run failing_env [SelectImage ''red.jpg'', ClickClassify]
        (run failing_env [Worker 0, Worker 0, Dispatch] init_gui))) = 1
   \<and> classifier (gui (run failing_env [SelectImage ''red.jpg'', ClickClassify]
        (run failing_env [Worker 0, Worker 0, Dispatch] init_gui))) = None"
proof -
  let ?s = "run failing_env [Worker 0, Worker 0, Dispatch] init_gui"
  have a: "classifier (gui ?s) = None"
    and b: "\<forall>w \<in> set (workers ?s). task w = LoadModel \<longrightarrow> pc w \<noteq> AtTry"
    and c: "length (workers ?s) = 1"
    unfolding load_error_lost_state by (simp_all add: setup_ui_def)
  from classify_rejected_after_load_failure[OF a b, of failing_env "[SelectImage ''red.jpg'', ClickClassify]"]
  show ?thesis using a c by simp
qed

end
